theory Spec2Isabelle
  imports Complex_Main "HOL-Library.Log_Nat" "HOL-Library.Multiset"
begin

section \<open>Python floats\<close>

text \<open>
  The prices, costs and percentages of \<^verbatim>\<open>main.py\<close> are Python floats, that is IEEE-754
  binary64 values. A finite float is modelled by the rational number it denotes; the
  two infinities and NaN are separate values. The two zeros \<^verbatim>\<open>0.0\<close> and \<^verbatim>\<open>-0.0\<close> are
  one value here: Python's \<^verbatim>\<open>==\<close> cannot tell them apart, and the only operation whose
  result depends on the sign of a zero, division by it, raises in Python.

  Every arithmetic operation computes the exact rational result and rounds it to the
  nearest binary64 value, ties to the even mantissa (\<open>fl\<close>).
\<close>

datatype pyfloat = Finite rat | PosInf | NegInf | NaN

definition pow2 :: "int \<Rightarrow> rat" where
  "pow2 e = (if 0 \<le> e then 2 ^ nat e else 1 / 2 ^ nat (- e))"

definition round_half_even :: "rat \<Rightarrow> int" where
  "round_half_even q =
     (let f = \<lfloor>q\<rfloor>; d = q - of_int f
      in if d < 1 / 2 then f
         else if 1 / 2 < d then f + 1
         else if even f then f else f + 1)"

text \<open>\<open>ilog2 a\<close> is the integer part of the binary logarithm of a positive rational.\<close>

definition ilog2 :: "rat \<Rightarrow> int" where
  "ilog2 a =
     (if 1 \<le> a then bitlen \<lfloor>a\<rfloor> - 1
      else let k = - bitlen \<lfloor>1 / a\<rfloor>
           in if pow2 (k + 1) \<le> a then k + 1 else k)"

text \<open>
  Rounding to binary64: 53 bits of mantissa, the least exponent of a unit in the last
  place is \<open>-1074\<close> (subnormal numbers), and a result of magnitude \<open>2 ^ 1024\<close> or more
  overflows to an infinity.
\<close>

definition fl :: "rat \<Rightarrow> pyfloat" where
  "fl q =
     (if q = 0 then Finite 0
      else let a = \<bar>q\<bar>;
               e = max (ilog2 a - 52) (- 1074);
               v = of_int (round_half_even (a / pow2 e)) * pow2 e
           in if 2 ^ 1024 \<le> v then (if 0 < q then PosInf else NegInf)
              else Finite (sgn q * v))"

text \<open>Python's \<^verbatim>\<open>==\<close> on floats: NaN is equal to nothing, itself included.\<close>

fun float_eq :: "pyfloat \<Rightarrow> pyfloat \<Rightarrow> bool" where
  "float_eq NaN _ = False"
| "float_eq _ NaN = False"
| "float_eq x y = (x = y)"

fun float_neg :: "pyfloat \<Rightarrow> pyfloat" where
  "float_neg (Finite a) = Finite (- a)"
| "float_neg PosInf = NegInf"
| "float_neg NegInf = PosInf"
| "float_neg NaN = NaN"

fun float_add :: "pyfloat \<Rightarrow> pyfloat \<Rightarrow> pyfloat" where
  "float_add (Finite a) (Finite b) = fl (a + b)"
| "float_add NaN _ = NaN"
| "float_add _ NaN = NaN"
| "float_add PosInf NegInf = NaN"
| "float_add NegInf PosInf = NaN"
| "float_add PosInf _ = PosInf"
| "float_add _ PosInf = PosInf"
| "float_add NegInf _ = NegInf"
| "float_add _ NegInf = NegInf"

definition float_sub :: "pyfloat \<Rightarrow> pyfloat \<Rightarrow> pyfloat" where
  "float_sub x y = float_add x (float_neg y)"

text \<open>The sign of a float that is not NaN, as \<open>-1\<close>, \<open>0\<close> or \<open>1\<close>.\<close>

fun float_sign :: "pyfloat \<Rightarrow> int" where
  "float_sign (Finite a) = (if a < 0 then - 1 else if a = 0 then 0 else 1)"
| "float_sign PosInf = 1"
| "float_sign NegInf = - 1"
| "float_sign NaN = 0"

definition signed_inf :: "int \<Rightarrow> pyfloat" where
  "signed_inf s = (if s = 0 then NaN else if 0 < s then PosInf else NegInf)"

fun float_mul :: "pyfloat \<Rightarrow> pyfloat \<Rightarrow> pyfloat" where
  "float_mul (Finite a) (Finite b) = fl (a * b)"
| "float_mul NaN _ = NaN"
| "float_mul _ NaN = NaN"
| "float_mul x y = signed_inf (float_sign x * float_sign y)"

text \<open>
  The IEEE quotient for a divisor that is not zero. Python never computes a quotient by
  zero (\<open>float_truediv\<close> below raises first), so the value given here for a zero divisor
  is never consulted.
\<close>

fun float_quot :: "pyfloat \<Rightarrow> pyfloat \<Rightarrow> pyfloat" where
  "float_quot (Finite a) (Finite b) = (if b = 0 then NaN else fl (a / b))"
| "float_quot NaN _ = NaN"
| "float_quot _ NaN = NaN"
| "float_quot (Finite a) PosInf = Finite 0"
| "float_quot (Finite a) NegInf = Finite 0"
| "float_quot PosInf (Finite b) = signed_inf (float_sign (Finite b))"
| "float_quot NegInf (Finite b) = signed_inf (- float_sign (Finite b))"
| "float_quot PosInf PosInf = NaN"
| "float_quot PosInf NegInf = NaN"
| "float_quot NegInf PosInf = NaN"
| "float_quot NegInf NegInf = NaN"

datatype error = NotFound | IntegrityError | ZeroDivisionError

text \<open>Python's \<^verbatim>\<open>x / y\<close> on floats raises \<^verbatim>\<open>ZeroDivisionError\<close> when \<^verbatim>\<open>y == 0\<close>.\<close>

definition float_truediv :: "pyfloat \<Rightarrow> pyfloat \<Rightarrow> error + pyfloat" where
  "float_truediv x y =
     (if float_eq y (Finite 0) then Inl ZeroDivisionError else Inr (float_quot x y))"

text \<open>
  Python's \<^verbatim>\<open>round(x, 2)\<close> on a float: NaN and the infinities are returned as they are;
  a finite value is rounded to two decimals, ties to the even digit, on its exact value,
  and the decimal result is converted back to the nearest float.
\<close>

fun py_round2 :: "pyfloat \<Rightarrow> pyfloat" where
  "py_round2 (Finite q) = fl (of_int (round_half_even (q * 100)) / 100)"
| "py_round2 x = x"

section \<open>Helpers\<close>

text \<open>
  \<^verbatim>\<open>
  def compute_margin(cost: float, price: float) -> float:
      if cost == 0:
          return 0.0
      return round(((price - cost) / cost) * 100, 2)
  \<close>
\<close>

definition compute_margin :: "pyfloat \<Rightarrow> pyfloat \<Rightarrow> error + pyfloat" where
  "compute_margin cost price =
     (if float_eq cost (Finite 0) then Inr (Finite 0)
      else case float_truediv (float_sub price cost) cost of
             Inl e \<Rightarrow> Inl e
           | Inr q \<Rightarrow> Inr (py_round2 (float_mul q (Finite 100))))"

section \<open>Models\<close>

text \<open>
  Timestamps are the values of \<^verbatim>\<open>datetime.utcnow()\<close>, counted in microseconds. Strings
  are byte strings in UTF-8: the source compares strings for equality and tests them for
  emptiness only, and both agree with Python's on the encoded bytes.
\<close>

type_synonym timestamp = int

text \<open>
  \<^verbatim>\<open>class ProductBase\<close>, \<^verbatim>\<open>class Product(ProductBase, table=True)\<close>: a row of the table
  \<^verbatim>\<open>product\<close>. A stored row always has its primary key.
\<close>

record product =
  p_id :: int
  name :: string
  category :: string
  cost :: pyfloat
  price :: pyfloat
  created_at :: timestamp
  updated_at :: timestamp

text \<open>\<^verbatim>\<open>class ProductCreate(ProductBase)\<close>: all four fields are required.\<close>

record product_create =
  c_name :: string
  c_category :: string
  c_cost :: pyfloat
  c_price :: pyfloat

text \<open>
  \<^verbatim>\<open>class ProductUpdate\<close>: every field is \<^verbatim>\<open>Optional\<close> with default \<^verbatim>\<open>None\<close>, and the handler
  reads it with \<^verbatim>\<open>data.dict(exclude_unset=True)\<close>. A field therefore has three states:
  \<open>None\<close> when the request does not name it, \<open>Some None\<close> when the request sets it to
  \<^verbatim>\<open>null\<close>, and \<open>Some (Some v)\<close> when the request gives it the value \<open>v\<close>.
\<close>

record product_update =
  u_name :: "string option option"
  u_category :: "string option option"
  u_cost :: "pyfloat option option"
  u_price :: "pyfloat option option"

text \<open>\<^verbatim>\<open>class ProductRead(ProductBase)\<close>\<close>

record product_read =
  r_id :: int
  r_name :: string
  r_category :: string
  r_cost :: pyfloat
  r_price :: pyfloat
  r_created_at :: timestamp
  r_updated_at :: timestamp
  margin :: pyfloat

text \<open>\<^verbatim>\<open>class PriceHistory(SQLModel, table=True)\<close>: a row of the table \<^verbatim>\<open>pricehistory\<close>.\<close>

record price_history =
  h_id :: int
  product_id :: int
  old_price :: pyfloat
  new_price :: pyfloat
  reason :: "string option"
  h_created_at :: timestamp

text \<open>
  \<^verbatim>\<open>class BulkIncreaseRequest\<close>, and the JSON body it is parsed from: a field of the body
  is \<open>None\<close> when the body does not name it. The defaults of the class fill the absent
  fields: \<^verbatim>\<open>category: Optional[str] = None\<close>, \<^verbatim>\<open>reason: Optional[str] = "Ajuste masivo"\<close>.
\<close>

record bulk_increase_request =
  percentage :: pyfloat
  b_category :: "string option"
  b_reason :: "string option"

record bulk_increase_body =
  body_percentage :: pyfloat
  body_category :: "string option option"
  body_reason :: "string option option"

definition default_reason :: string where
  "default_reason = ''Ajuste masivo''"

definition parse_bulk_increase :: "bulk_increase_body \<Rightarrow> bulk_increase_request" where
  "parse_bulk_increase body =
     \<lparr>percentage = body_percentage body,
      b_category = (case body_category body of None \<Rightarrow> None | Some c \<Rightarrow> c),
      b_reason = (case body_reason body of None \<Rightarrow> Some default_reason | Some r \<Rightarrow> r)\<rparr>"

text \<open>The JSON values of the two handlers that return a plain \<^verbatim>\<open>dict\<close>.\<close>

datatype json = JInt int | JFloat pyfloat | JStr string | JNull

type_synonym json_dict = "(string \<times> json) list"

section \<open>The store and the clock\<close>

text \<open>
  The database holds the two tables, each in the order of its primary key. The clock is
  a sequence of readings: the \<open>n\<close>-th call of \<^verbatim>\<open>datetime.utcnow()\<close> since the start returns
  \<open>clk n\<close>, and \<open>ticks\<close> counts the calls made so far.
\<close>

type_synonym clock = "nat \<Rightarrow> timestamp"

record world =
  product_rows :: "product list"
  history_rows :: "price_history list"
  ticks :: nat

definition empty_world :: world where
  "empty_world = \<lparr>product_rows = [], history_rows = [], ticks = 0\<rparr>"

definition utcnow :: "clock \<Rightarrow> world \<Rightarrow> timestamp \<times> world" where
  "utcnow clk w = (clk (ticks w), w\<lparr>ticks := Suc (ticks w)\<rparr>)"

text \<open>\<^verbatim>\<open>session.get(Product, product_id)\<close>: the row with that primary key, if any.\<close>

definition session_get :: "world \<Rightarrow> int \<Rightarrow> product option" where
  "session_get w pid = find (\<lambda>p. p_id p = pid) (product_rows w)"

text \<open>
  The store assigns the primary key of a new row. The file's database is SQLite, whose
  integer primary key is one more than the largest key in the table, and 1 in an empty
  table.
\<close>

definition next_rowid :: "int list \<Rightarrow> int" where
  "next_rowid ids = fold max ids 0 + 1"

text \<open>The \<^verbatim>\<open>UPDATE\<close> of a row that the session holds, by its primary key.\<close>

definition store_product :: "product \<Rightarrow> product list \<Rightarrow> product list" where
  "store_product p rows = map (\<lambda>q. if p_id q = p_id p then p else q) rows"

section \<open>View of a product\<close>

definition product_to_read :: "product \<Rightarrow> error + product_read" where
  "product_to_read product =
     (case compute_margin (cost product) (price product) of
        Inl e \<Rightarrow> Inl e
      | Inr m \<Rightarrow>
          Inr \<lparr>r_id = p_id product, r_name = name product, r_category = category product,
               r_cost = cost product, r_price = price product,
               r_created_at = created_at product, r_updated_at = updated_at product,
               margin = m\<rparr>)"

section \<open>Product endpoints\<close>

text \<open>
  Every handler takes the clock and the world and returns its response, or the error it
  raises, with the world it leaves. A handler that raises before \<^verbatim>\<open>session.commit()\<close>
  succeeds leaves both tables as they were.

  \<^verbatim>\<open>create_product\<close>: \<^verbatim>\<open>Product.from_orm(data)\<close> fills \<^verbatim>\<open>created_at\<close> and \<^verbatim>\<open>updated_at\<close> from
  their default factories, one call of \<^verbatim>\<open>datetime.utcnow\<close> each, in the order of the
  fields.
\<close>

definition create_product :: "clock \<Rightarrow> world \<Rightarrow> product_create \<Rightarrow> (error + product_read) \<times> world" where
  "create_product clk w data =
     (let (t_created, w1) = utcnow clk w;
          (t_updated, w2) = utcnow clk w1;
          product = \<lparr>p_id = next_rowid (map p_id (product_rows w2)),
                     name = c_name data, category = c_category data,
                     cost = c_cost data, price = c_price data,
                     created_at = t_created, updated_at = t_updated\<rparr>;
          w3 = w2\<lparr>product_rows := product_rows w2 @ [product]\<rparr>
      in case product_to_read product of
           Inl e \<Rightarrow> (Inl e, w3)
         | Inr v \<Rightarrow> (Inr v, w3))"

fun read_all :: "product list \<Rightarrow> error + product_read list" where
  "read_all [] = Inr []"
| "read_all (p # ps) =
     (case product_to_read p of
        Inl e \<Rightarrow> Inl e
      | Inr v \<Rightarrow> (case read_all ps of Inl e \<Rightarrow> Inl e | Inr vs \<Rightarrow> Inr (v # vs)))"

definition list_products :: "world \<Rightarrow> (error + product_read list) \<times> world" where
  "list_products w = (read_all (product_rows w), w)"

definition get_product :: "world \<Rightarrow> int \<Rightarrow> (error + product_read) \<times> world" where
  "get_product w pid =
     (case session_get w pid of
        None \<Rightarrow> (Inl NotFound, w)
      | Some product \<Rightarrow> (product_to_read product, w))"

text \<open>
  \<^verbatim>\<open>update_product\<close>. The loop \<^verbatim>\<open>for key, value in update_data.items(): setattr(...)\<close>
  leaves in each attribute the value the request gave, which may be \<^verbatim>\<open>None\<close>, or the
  stored value when the request does not name the field.
\<close>

definition setattr_field :: "'a option option \<Rightarrow> 'a \<Rightarrow> 'a option" where
  "setattr_field upd cur = (case upd of None \<Rightarrow> Some cur | Some v \<Rightarrow> v)"

text \<open>\<^verbatim>\<open>update_data["price"] != old_price\<close>: \<^verbatim>\<open>None\<close> differs from every float.\<close>

definition price_differs :: "pyfloat option \<Rightarrow> pyfloat \<Rightarrow> bool" where
  "price_differs v old = (case v of None \<Rightarrow> True | Some x \<Rightarrow> \<not> float_eq x old)"

definition update_reason :: string where
  "update_reason = ''Actualizaci'' @ [CHR 0xC3, CHR 0xB3] @ ''n individual''"

text \<open>
  The columns \<^verbatim>\<open>name\<close>, \<^verbatim>\<open>category\<close>, \<^verbatim>\<open>cost\<close> and \<^verbatim>\<open>price\<close> of the table are declared without
  \<^verbatim>\<open>Optional\<close>, hence \<^verbatim>\<open>NOT NULL\<close>: \<^verbatim>\<open>session.commit()\<close> raises when one of them holds
  \<^verbatim>\<open>None\<close>, and nothing is written.
\<close>

definition update_product :: "clock \<Rightarrow> world \<Rightarrow> int \<Rightarrow> product_update \<Rightarrow> (error + product_read) \<times> world" where
  "update_product clk w pid data =
     (case session_get w pid of
        None \<Rightarrow> (Inl NotFound, w)
      | Some product \<Rightarrow>
          let old_price = price product;
              new_name = setattr_field (u_name data) (name product);
              new_category = setattr_field (u_category data) (category product);
              new_cost = setattr_field (u_cost data) (cost product);
              new_price = setattr_field (u_price data) (price product);
              (now, w1) = utcnow clk w;
              price_changed = (case u_price data of None \<Rightarrow> False | Some v \<Rightarrow> price_differs v old_price);
              (h_now, w2) = (if price_changed then utcnow clk w1 else (now, w1))
          in case (new_name, new_category, new_cost, new_price) of
               (Some n, Some c, Some co, Some pr) \<Rightarrow>
                 let product' = product\<lparr>name := n, category := c, cost := co, price := pr,
                                        updated_at := now\<rparr>;
                     history = \<lparr>h_id = next_rowid (map h_id (history_rows w2)),
                                product_id = p_id product, old_price = old_price,
                                new_price = pr, reason = Some update_reason,
                                h_created_at = h_now\<rparr>;
                     w3 = w2\<lparr>product_rows := store_product product' (product_rows w2),
                             history_rows := history_rows w2 @ (if price_changed then [history] else [])\<rparr>
                 in (case product_to_read product' of
                       Inl e \<Rightarrow> (Inl e, w3)
                     | Inr v \<Rightarrow> (Inr v, w3))
             | _ \<Rightarrow> (Inl IntegrityError, w2))"

text \<open>
  \<^verbatim>\<open>delete_product\<close>. SQLite does not enforce the foreign key of \<^verbatim>\<open>pricehistory.product_id\<close>
  unless asked to, and the file does not ask: the rows of the history stay.
\<close>

definition delete_product :: "world \<Rightarrow> int \<Rightarrow> (error + json_dict) \<times> world" where
  "delete_product w pid =
     (case session_get w pid of
        None \<Rightarrow> (Inl NotFound, w)
      | Some product \<Rightarrow>
          (Inr [(''detail'', JStr ''Producto eliminado'')],
           w\<lparr>product_rows := filter (\<lambda>q. p_id q \<noteq> p_id product) (product_rows w)\<rparr>))"

section \<open>Bulk increase\<close>

text \<open>\<^verbatim>\<open>if payload.category:\<close> is false for \<^verbatim>\<open>None\<close> and for the empty string.\<close>

definition truthy :: "string option \<Rightarrow> bool" where
  "truthy c = (case c of None \<Rightarrow> False | Some s \<Rightarrow> s \<noteq> [])"

definition select_products :: "world \<Rightarrow> string option \<Rightarrow> product list" where
  "select_products w cat =
     (if truthy cat then filter (\<lambda>p. Some (category p) = cat) (product_rows w)
      else product_rows w)"

text \<open>
  The loop \<^verbatim>\<open>for product in products:\<close>. Each turn reads the clock twice: for
  \<^verbatim>\<open>product.updated_at\<close>, and for the \<^verbatim>\<open>created_at\<close> of the new \<^verbatim>\<open>PriceHistory\<close>.
\<close>

fun bulk_loop :: "clock \<Rightarrow> pyfloat \<Rightarrow> string option \<Rightarrow> product list \<Rightarrow> world \<times> int \<Rightarrow> world \<times> int" where
  "bulk_loop clk factor rsn [] (w, updated_count) = (w, updated_count)"
| "bulk_loop clk factor rsn (product # rest) (w, updated_count) =
     (let old_price = price product;
          new_price = py_round2 (float_mul old_price factor);
          (now, w1) = utcnow clk w;
          product' = product\<lparr>price := new_price, updated_at := now\<rparr>;
          (h_now, w2) = utcnow clk w1;
          history = \<lparr>h_id = next_rowid (map h_id (history_rows w2)),
                     product_id = p_id product, old_price = old_price,
                     new_price = new_price, reason = rsn, h_created_at = h_now\<rparr>;
          w3 = w2\<lparr>product_rows := store_product product' (product_rows w2),
                  history_rows := history_rows w2 @ [history]\<rparr>
      in bulk_loop clk factor rsn rest (w3, updated_count + 1))"

text \<open>
  \<^verbatim>\<open>factor = 1 + payload.percentage / 100.0\<close>: the divisor is the literal \<^verbatim>\<open>100.0\<close>, so
  the division cannot raise.
\<close>

definition bulk_increase :: "clock \<Rightarrow> world \<Rightarrow> bulk_increase_request \<Rightarrow> (error + json_dict) \<times> world" where
  "bulk_increase clk w payload =
     (let products = select_products w (b_category payload)
      in if products = [] then (Inr [(''updated'', JInt 0)], w)
         else
           let factor = float_add (Finite 1) (float_quot (percentage payload) (Finite 100));
               (w', updated_count) = bulk_loop clk factor (b_reason payload) products (w, 0)
           in (Inr [(''updated'', JInt updated_count),
                    (''percentage'', JFloat (percentage payload)),
                    (''category'', case b_category payload of None \<Rightarrow> JNull | Some c \<Rightarrow> JStr c)],
               w'))"

section \<open>History\<close>

text \<open>
  \<^verbatim>\<open>get_history\<close>. \<^verbatim>\<open>ORDER BY created_at DESC\<close> leaves the order of rows with equal
  keys open; the model keeps them in the order of the table.
\<close>

definition get_history :: "world \<Rightarrow> int \<Rightarrow> (error + price_history list) \<times> world" where
  "get_history w pid =
     (case session_get w pid of
        None \<Rightarrow> (Inl NotFound, w)
      | Some product \<Rightarrow>
          (Inr (sort_key (\<lambda>h. - h_created_at h)
                  (filter (\<lambda>h. product_id h = pid) (history_rows w))),
           w))"

section \<open>Sequences of requests\<close>

datatype request =
    Create product_create
  | ListAll
  | Get int
  | Update int product_update
  | Delete int
  | BulkIncrease bulk_increase_body
  | GetHistory int

definition serve :: "clock \<Rightarrow> world \<Rightarrow> request \<Rightarrow> world" where
  "serve clk w req =
     (case req of
        Create data \<Rightarrow> snd (create_product clk w data)
      | ListAll \<Rightarrow> snd (list_products w)
      | Get pid \<Rightarrow> snd (get_product w pid)
      | Update pid data \<Rightarrow> snd (update_product clk w pid data)
      | Delete pid \<Rightarrow> snd (delete_product w pid)
      | BulkIncrease body \<Rightarrow> snd (bulk_increase clk w (parse_bulk_increase body))
      | GetHistory pid \<Rightarrow> snd (get_history w pid))"

definition run :: "clock \<Rightarrow> request list \<Rightarrow> world" where
  "run clk reqs = foldl (serve clk) empty_world reqs"

section \<open>Notions of the statements\<close>


text \<open>One turn of the loop of \<^verbatim>\<open>bulk_increase\<close>, as a function on worlds.\<close>

definition bulk_turn :: "clock \<Rightarrow> pyfloat \<Rightarrow> string option \<Rightarrow> product \<Rightarrow> world \<Rightarrow> world" where
  "bulk_turn clk f r p w =
     w\<lparr>ticks := Suc (Suc (ticks w)),
       product_rows := store_product (p\<lparr>price := py_round2 (float_mul (price p) f), updated_at := clk (ticks w)\<rparr>) (product_rows w),
       history_rows := history_rows w @
           [\<lparr>h_id = next_rowid (map h_id (history_rows w)), product_id = p_id p,
             old_price = price p, new_price = py_round2 (float_mul (price p) f),
             reason = r, h_created_at = clk (Suc (ticks w))\<rparr>]\<rparr>"

text \<open>
  The invariant of the timestamps: a stored row was created no later than it was last
  updated, and no later reading of the clock lies before its last update.
\<close>

definition row_ok :: "clock \<Rightarrow> nat \<Rightarrow> product \<Rightarrow> bool" where
  "row_ok clk t p \<longleftrightarrow> created_at p \<le> updated_at p \<and> (\<forall>n\<ge>t. updated_at p \<le> clk n)"

definition stamps_ok :: "clock \<Rightarrow> world \<Rightarrow> bool" where
  "stamps_ok clk w \<longleftrightarrow>
     distinct (map p_id (product_rows w)) \<and> (\<forall>p\<in>set (product_rows w). row_ok clk (ticks w) p)"

definition refreshed :: "clock \<Rightarrow> world \<Rightarrow> world \<Rightarrow> bool" where
  "refreshed clk w w' \<longleftrightarrow>
     (\<forall>p'\<in>set (product_rows w'). p' \<in> set (product_rows w) \<or> (\<exists>n\<ge>ticks w. updated_at p' = clk n))"

text \<open>Example data: a clock that advances by one at every reading, and a small store.\<close>

definition tick_clock :: clock where
  "tick_clock n = int n"

definition mate :: product where
  "mate = \<lparr>p_id = 1, name = ''mate'', category = ''bebidas'', cost = Finite 50,
            price = Finite 100, created_at = 0, updated_at = 6\<rparr>"

definition yerba :: product where
  "yerba = \<lparr>p_id = 2, name = ''yerba'', category = ''almacen'', cost = Finite 80,
             price = Finite 200, created_at = 2, updated_at = 3\<rparr>"

definition example_world :: world where
  "example_world =
     \<lparr>product_rows = [mate, yerba],
      history_rows =
        [\<lparr>h_id = 1, product_id = 1, old_price = Finite 80, new_price = Finite 90,
          reason = Some update_reason, h_created_at = 5\<rparr>,
         \<lparr>h_id = 2, product_id = 1, old_price = Finite 90, new_price = Finite 100,
          reason = Some update_reason, h_created_at = 7\<rparr>],
      ticks = 8\<rparr>"

section \<open>Evaluating float arithmetic\<close>

lemma bitlen_One: "bitlen 1 = 1"
  by (subst compute_bitlen) simp

lemma bitlen_Bit0: "bitlen (numeral (num.Bit0 n)) = bitlen (numeral n) + 1"
  by (subst compute_bitlen) simp

lemma bitlen_Bit1: "bitlen (numeral (num.Bit1 n)) = bitlen (numeral n) + 1"
  by (subst compute_bitlen) simp

lemma floor_rat_numeral_div:
  "\<lfloor>(numeral a :: rat) / numeral b\<rfloor> = numeral a div numeral b"
  by (metis floor_divide_of_int_eq of_int_numeral)

lemmas fl_eval =
  fl_def ilog2_def pow2_def round_half_even_def Let_def
  bitlen_One bitlen_Bit0 bitlen_Bit1 floor_rat_numeral_div


lemma fl_100: "fl 100 = Finite 100"
  by (simp add: fl_eval)


section \<open>The margin\<close>

lemma compute_margin_eq:
  "compute_margin c p =
     Inr (if float_eq c (Finite 0) then Finite 0
          else py_round2 (float_mul (float_quot (float_sub p c) c) (Finite 100)))"
  by (simp add: compute_margin_def float_truediv_def)

section \<open>The store\<close>

lemma session_get_None_iff: "session_get w pid = None \<longleftrightarrow> pid \<notin> p_id ` set (product_rows w)"
  by (auto simp: session_get_def find_None_iff)

lemma session_get_SomeD: "session_get w pid = Some p \<Longrightarrow> p \<in> set (product_rows w) \<and> p_id p = pid"
  by (auto simp: session_get_def find_Some_iff)

lemma product_to_read_total: "\<exists>v. product_to_read p = Inr v"
  by (simp add: product_to_read_def compute_margin_eq)


lemma ids_store_product: "map p_id (store_product p rows) = map p_id rows"
  by (induction rows) (auto simp: store_product_def)


lemma fold_max_ge: "m \<le> fold max ids (m::int)"
  by (induction ids arbitrary: m) (auto intro: order_trans [OF max.cobounded2])

lemma fold_max_mem: "i \<in> set ids \<Longrightarrow> i \<le> fold max ids (m::int)"
proof (induction ids arbitrary: m)
  case Nil
  then show ?case by simp
next
  case (Cons a ids)
  show ?case
  proof (cases "i = a")
    case True
    have "a \<le> max a m" by simp
    also have "\<dots> \<le> fold max ids (max a m)" by (rule fold_max_ge)
    finally show ?thesis using True by simp
  next
    case False
    with Cons show ?thesis by simp
  qed
qed

lemma next_rowid_fresh: "next_rowid ids \<notin> set ids"
  using fold_max_mem [of "next_rowid ids" ids 0] by (auto simp: next_rowid_def)

lemma set_store_product:
  "set (store_product p rows) \<subseteq> insert p (set rows)"
  by (auto simp: store_product_def)

section \<open>Update\<close>


section \<open>The loop of the bulk increase\<close>

lemma bulk_loop_Cons:
  "bulk_loop clk f r (p # rest) (w, n) =
     bulk_loop clk f r rest
       (bulk_turn clk f r p w, n + 1)"
  by (simp add: Let_def utcnow_def bulk_turn_def)

declare bulk_loop.simps(2) [simp del]

lemma bulk_loop_count:
  "snd (bulk_loop clk f r sel (w, n)) = n + int (length sel)"
  by (induction sel arbitrary: w n) (simp_all add: bulk_loop_Cons bulk_turn_def)

lemma bulk_loop_ticks:
  "ticks (fst (bulk_loop clk f r sel (w, n))) = ticks w + 2 * length sel"
  by (induction sel arbitrary: w n) (simp_all add: bulk_loop_Cons bulk_turn_def)

lemma bulk_loop_ids:
  "map p_id (product_rows (fst (bulk_loop clk f r sel (w, n)))) = map p_id (product_rows w)"
  by (induction sel arbitrary: w n) (simp_all add: bulk_loop_Cons bulk_turn_def ids_store_product)







lemma bulk_increase_run:
  "bulk_increase clk w payload =
     (if select_products w (b_category payload) = [] then (Inr [(''updated'', JInt 0)], w)
      else (Inr [(''updated'', JInt (int (length (select_products w (b_category payload))))),
                 (''percentage'', JFloat (percentage payload)),
                 (''category'', case b_category payload of None \<Rightarrow> JNull | Some c \<Rightarrow> JStr c)],
            fst (bulk_loop clk (float_add (Finite 1) (float_quot (percentage payload) (Finite 100)))
                  (b_reason payload) (select_products w (b_category payload)) (w, 0))))"
  using bulk_loop_count [of clk "float_add (Finite 1) (float_quot (percentage payload) (Finite 100))"
      "b_reason payload" "select_products w (b_category payload)" w 0]
  by (simp add: bulk_increase_def Let_def split_def)

lemma select_products_empty_string: "select_products w (Some []) = product_rows w"
  by (simp add: select_products_def truthy_def)

lemma select_products_None: "select_products w None = product_rows w"
  by (simp add: select_products_def truthy_def)

lemma select_products_subset: "set (select_products w c) \<subseteq> set (product_rows w)"
  by (auto simp: select_products_def)

section \<open>The invariant of the timestamps\<close>

lemma row_ok_later: "row_ok clk t p \<Longrightarrow> t \<le> t' \<Longrightarrow> row_ok clk t' p"
  by (auto simp: row_ok_def)

lemma row_ok_touch:
  "mono clk \<Longrightarrow> row_ok clk t p \<Longrightarrow> t < t' \<Longrightarrow> created_at p' = created_at p \<Longrightarrow>
   updated_at p' = clk t \<Longrightarrow> row_ok clk t' p'"
  unfolding row_ok_def
  by (metis less_or_eq_imp_le monoD order.trans)

lemma create_product_world:
  "snd (create_product clk w data) =
     w\<lparr>ticks := Suc (Suc (ticks w)),
       product_rows := product_rows w @
         [\<lparr>p_id = next_rowid (map p_id (product_rows w)), name = c_name data,
           category = c_category data, cost = c_cost data, price = c_price data,
           created_at = clk (ticks w), updated_at = clk (Suc (ticks w))\<rparr>]\<rparr>"
  by (simp add: create_product_def utcnow_def Let_def split: sum.splits)

lemma stamps_ok_create:
  assumes "mono clk" "stamps_ok clk w"
  shows "stamps_ok clk (snd (create_product clk w data))"
proof -
  have new: "row_ok clk (Suc (Suc (ticks w)))
      \<lparr>p_id = next_rowid (map p_id (product_rows w)), name = c_name data,
           category = c_category data, cost = c_cost data, price = c_price data,
           created_at = clk (ticks w), updated_at = clk (Suc (ticks w))\<rparr>"
    using assms(1) by (auto simp: row_ok_def mono_def)
  have old: "\<forall>p\<in>set (product_rows w). row_ok clk (Suc (Suc (ticks w))) p"
    using assms(2) by (auto simp: stamps_ok_def intro: row_ok_later)
  show ?thesis
    using new old assms(2) next_rowid_fresh [of "map p_id (product_rows w)"]
    by (simp add: create_product_world stamps_ok_def)
qed

lemma refreshed_create: "refreshed clk w (snd (create_product clk w data))"
  by (auto simp: create_product_world refreshed_def intro: exI [of _ "Suc (ticks w)"])

lemma update_product_world:
  "ticks w \<le> ticks (snd (update_product clk w pid data))
   \<and> (product_rows (snd (update_product clk w pid data)) = product_rows w
      \<or> (\<exists>p p'. ticks w < ticks (snd (update_product clk w pid data))
            \<and> p \<in> set (product_rows w) \<and> created_at p' = created_at p
            \<and> p_id p' = p_id p \<and> updated_at p' = clk (ticks w)
            \<and> product_rows (snd (update_product clk w pid data)) = store_product p' (product_rows w)))"
proof (cases "session_get w pid")
  case None
  then show ?thesis by (simp add: update_product_def)
next
  case (Some p)
  then have mem: "p \<in> set (product_rows w)" by (simp add: session_get_SomeD)
  show ?thesis
  proof (cases "\<exists>n c co pr. setattr_field (u_name data) (name p) = Some n
      \<and> setattr_field (u_category data) (category p) = Some c
      \<and> setattr_field (u_cost data) (cost p) = Some co
      \<and> setattr_field (u_price data) (price p) = Some pr")
    case True
    then obtain n c co pr where f: "setattr_field (u_name data) (name p) = Some n"
      "setattr_field (u_category data) (category p) = Some c"
      "setattr_field (u_cost data) (cost p) = Some co"
      "setattr_field (u_price data) (price p) = Some pr" by blast
    let ?p = "p\<lparr>name := n, category := c, cost := co, price := pr, updated_at := clk (ticks w)\<rparr>"
    obtain v where v: "product_to_read ?p = Inr v"
      using product_to_read_total by blast
    have "ticks w < ticks (snd (update_product clk w pid data))
        \<and> product_rows (snd (update_product clk w pid data)) = store_product ?p (product_rows w)"
      using Some f v
      by (simp add: update_product_def Let_def utcnow_def split_def)
    then show ?thesis using mem
      by (intro conjI disjI2 exI [of _ p] exI [of _ ?p]) simp_all
  next
    case False
    then have "ticks w \<le> ticks (snd (update_product clk w pid data))
        \<and> product_rows (snd (update_product clk w pid data)) = product_rows w"
      using Some
      by (auto simp: update_product_def Let_def utcnow_def split_def split: option.splits)
    then show ?thesis by blast
  qed
qed

lemma stamps_ok_store:
  assumes "mono clk" "stamps_ok clk w" "ticks w < t" "p \<in> set (product_rows w)"
    "created_at p' = created_at p" "p_id p' = p_id p" "updated_at p' = clk (ticks w)"
    "product_rows w' = store_product p' (product_rows w)" "ticks w' = t"
  shows "stamps_ok clk w'"
proof -
  have "row_ok clk (ticks w) p" using assms(2,4) by (simp add: stamps_ok_def)
  from row_ok_touch [OF assms(1) this assms(3,5,7)] have new: "row_ok clk t p'" .
  have old: "\<forall>q\<in>set (product_rows w). row_ok clk t q"
    using assms(2,3) by (auto simp: stamps_ok_def intro: row_ok_later)
  have "\<forall>q\<in>set (product_rows w'). row_ok clk t q"
    using new old set_store_product [of p' "product_rows w"] assms(8) by auto
  moreover have "distinct (map p_id (product_rows w'))"
    using assms(2,8) by (simp add: stamps_ok_def ids_store_product)
  ultimately show ?thesis using assms(9) by (simp add: stamps_ok_def)
qed

lemma stamps_ok_same_rows:
  "stamps_ok clk w \<Longrightarrow> ticks w \<le> ticks w' \<Longrightarrow> product_rows w' = product_rows w \<Longrightarrow> stamps_ok clk w'"
  by (auto simp: stamps_ok_def intro: row_ok_later)

lemma stamps_ok_update:
  assumes "mono clk" "stamps_ok clk w"
  shows "stamps_ok clk (snd (update_product clk w pid data))"
  using update_product_world [of w clk pid data] assms
  by (auto intro: stamps_ok_same_rows stamps_ok_store)

lemma refreshed_update: "refreshed clk w (snd (update_product clk w pid data))"
proof -
  have "p' \<in> set (product_rows w) \<or> (\<exists>n\<ge>ticks w. updated_at p' = clk n)"
    if "p' \<in> set (product_rows (snd (update_product clk w pid data)))" for p'
    using update_product_world [of w clk pid data] that set_store_product
    by (metis insertE order_refl subsetD)
  then show ?thesis by (simp add: refreshed_def)
qed

lemma delete_product_world:
  "ticks (snd (delete_product w pid)) = ticks w
   \<and> (\<exists>i. product_rows (snd (delete_product w pid)) = filter (\<lambda>q. p_id q \<noteq> i) (product_rows w))
   \<and> history_rows (snd (delete_product w pid)) = history_rows w"
proof (cases "session_get w pid")
  case None
  then have "pid \<notin> p_id ` set (product_rows w)" by (simp add: session_get_None_iff)
  then have "filter (\<lambda>q. p_id q \<noteq> pid) (product_rows w) = product_rows w"
    by (auto simp: filter_id_conv)
  then have "\<exists>i. product_rows w = filter (\<lambda>q. p_id q \<noteq> i) (product_rows w)"
    by metis
  then show ?thesis using None by (simp add: delete_product_def)
next
  case (Some p)
  then show ?thesis by (auto simp: delete_product_def)
qed

lemma stamps_ok_delete: "stamps_ok clk w \<Longrightarrow> stamps_ok clk (snd (delete_product w pid))"
  using delete_product_world [of w pid]
  by (auto simp: stamps_ok_def distinct_map_filter)

lemma refreshed_delete: "refreshed clk w (snd (delete_product w pid))"
  using delete_product_world [of w pid] by (auto simp: refreshed_def)

lemma bulk_loop_row_ok:
  "mono clk \<Longrightarrow> \<forall>p\<in>set (product_rows w). row_ok clk (ticks w) p \<Longrightarrow>
   \<forall>p\<in>set sel. row_ok clk (ticks w) p \<Longrightarrow>
   \<forall>p\<in>set (product_rows (fst (bulk_loop clk f r sel (w, n)))).
      row_ok clk (ticks (fst (bulk_loop clk f r sel (w, n)))) p"
proof (induction sel arbitrary: w n)
  case Nil
  then show ?case by simp
next
  case (Cons p rest)
  let ?p = "p\<lparr>price := py_round2 (float_mul (price p) f), updated_at := clk (ticks w)\<rparr>"
  let ?w = "bulk_turn clk f r p w"
  have t: "ticks ?w = Suc (Suc (ticks w))" by (simp add: bulk_turn_def)
  have rows: "product_rows ?w = store_product ?p (product_rows w)" by (simp add: bulk_turn_def)
  have "row_ok clk (ticks w) p" using Cons.prems(3) by simp
  from row_ok_touch [OF Cons.prems(1) this, of "ticks ?w" ?p] have new: "row_ok clk (ticks ?w) ?p"
    by (simp add: t)
  have "\<forall>q\<in>set (product_rows w). row_ok clk (ticks ?w) q"
    using Cons.prems(2) by (auto simp: t intro: row_ok_later)
  then have 1: "\<forall>q\<in>set (product_rows ?w). row_ok clk (ticks ?w) q"
    using new set_store_product [of ?p "product_rows w"] rows by auto
  have 2: "\<forall>q\<in>set rest. row_ok clk (ticks ?w) q"
    using Cons.prems(3) by (auto simp: t intro: row_ok_later)
  from Cons.IH [OF Cons.prems(1) 1 2, of "n + 1"] show ?case
    by (simp add: bulk_loop_Cons)
qed

lemma bulk_loop_refreshed:
  "\<forall>p'\<in>set (product_rows (fst (bulk_loop clk f r sel (w, n)))).
      p' \<in> set (product_rows w) \<or> (\<exists>k\<ge>ticks w. updated_at p' = clk k)"
proof (induction sel arbitrary: w n)
  case Nil
  then show ?case by simp
next
  case (Cons p rest)
  let ?p = "p\<lparr>price := py_round2 (float_mul (price p) f), updated_at := clk (ticks w)\<rparr>"
  let ?w = "bulk_turn clk f r p w"
  have t: "ticks ?w = Suc (Suc (ticks w))" by (simp add: bulk_turn_def)
  have rows: "product_rows ?w = store_product ?p (product_rows w)" by (simp add: bulk_turn_def)
  show ?case
  proof
    fix p' assume "p' \<in> set (product_rows (fst (bulk_loop clk f r (p # rest) (w, n))))"
    then have "p' \<in> set (product_rows (fst (bulk_loop clk f r rest (?w, n + 1))))"
      by (simp add: bulk_loop_Cons)
    with Cons.IH [of ?w "n + 1"]
    have "p' \<in> set (product_rows ?w) \<or> (\<exists>k\<ge>ticks ?w. updated_at p' = clk k)" by blast
    then show "p' \<in> set (product_rows w) \<or> (\<exists>k\<ge>ticks w. updated_at p' = clk k)"
    proof
      assume "p' \<in> set (product_rows ?w)"
      then have "p' = ?p \<or> p' \<in> set (product_rows w)"
        using set_store_product [of ?p "product_rows w"] rows by auto
      then show ?thesis by auto
    next
      assume "\<exists>k\<ge>ticks ?w. updated_at p' = clk k"
      then show ?thesis using t by (metis Suc_leD)
    qed
  qed
qed

lemma bulk_increase_world:
  "snd (bulk_increase clk w payload) =
     (if select_products w (b_category payload) = [] then w
      else fst (bulk_loop clk (float_add (Finite 1) (float_quot (percentage payload) (Finite 100)))
                  (b_reason payload) (select_products w (b_category payload)) (w, 0)))"
  by (simp add: bulk_increase_def Let_def split_def)

lemma stamps_ok_bulk:
  assumes "mono clk" "stamps_ok clk w"
  shows "stamps_ok clk (snd (bulk_increase clk w payload))"
proof -
  have rows: "\<forall>p\<in>set (product_rows w). row_ok clk (ticks w) p"
    using assms(2) by (simp add: stamps_ok_def)
  then have sel: "\<forall>p\<in>set (select_products w (b_category payload)). row_ok clk (ticks w) p"
    using select_products_subset by blast
  show ?thesis
    using bulk_loop_row_ok [OF assms(1) rows sel] assms(2)
    by (simp add: bulk_increase_world stamps_ok_def bulk_loop_ids)
qed

lemma refreshed_bulk: "refreshed clk w (snd (bulk_increase clk w payload))"
  using bulk_loop_refreshed [of clk _ "b_reason payload" "select_products w (b_category payload)" w 0]
  by (simp add: bulk_increase_world refreshed_def)

lemma stamps_ok_serve:
  "mono clk \<Longrightarrow> stamps_ok clk w \<Longrightarrow> stamps_ok clk (serve clk w req)"
  by (cases req)
     (simp_all add: serve_def stamps_ok_create stamps_ok_update stamps_ok_delete stamps_ok_bulk
        list_products_def get_product_def get_history_def split: option.splits)

lemma refreshed_serve: "refreshed clk w (serve clk w req)"
  by (cases req)
     (simp_all add: serve_def refreshed_create refreshed_update refreshed_delete refreshed_bulk
        list_products_def get_product_def get_history_def split: option.splits,
      simp_all add: refreshed_def)

lemma stamps_ok_foldl:
  "mono clk \<Longrightarrow> stamps_ok clk w \<Longrightarrow> stamps_ok clk (foldl (serve clk) w reqs)"
  by (induction reqs arbitrary: w) (simp_all add: stamps_ok_serve)

lemma stamps_ok_run: "mono clk \<Longrightarrow> stamps_ok clk (run clk reqs)"
  unfolding run_def by (rule stamps_ok_foldl) (simp_all add: stamps_ok_def empty_world_def)

text \<open>The primary keys of the products are distinct in every state that is reached.\<close>

lemma distinct_ids_serve:
  assumes "distinct (map p_id (product_rows w))"
  shows "distinct (map p_id (product_rows (serve clk w req)))"
proof (cases req)
  case (Create data)
  then show ?thesis
    using assms next_rowid_fresh [of "map p_id (product_rows w)"]
    by (simp add: serve_def create_product_world)
next
  case (Update pid data)
  then show ?thesis
    using assms update_product_world [of w clk pid data]
    by (auto simp: serve_def ids_store_product)
next
  case (Delete pid)
  then show ?thesis
    using assms delete_product_world [of w pid]
    by (auto simp: serve_def distinct_map_filter)
next
  case (BulkIncrease body)
  then show ?thesis
    using assms by (simp add: serve_def bulk_increase_world bulk_loop_ids)
qed (simp_all add: serve_def assms list_products_def get_product_def get_history_def split: option.splits)

lemma distinct_ids_foldl:
  "distinct (map p_id (product_rows w)) \<Longrightarrow> distinct (map p_id (product_rows (foldl (serve clk) w reqs)))"
  by (induction reqs arbitrary: w) (simp_all add: distinct_ids_serve)

lemma distinct_ids_run: "distinct (map p_id (product_rows (run clk reqs)))"
  unfolding run_def by (rule distinct_ids_foldl) (simp add: empty_world_def)

section \<open>The example store\<close>

lemma raise_100:
  "py_round2 (float_mul (Finite 100) (float_add (Finite 1) (fl (1 / 10)))) = Finite 110"
  by (simp add: fl_eval)

lemma raise_200:
  "py_round2 (float_mul (Finite 200) (float_add (Finite 1) (fl (1 / 10)))) = Finite 220"
  by (simp add: fl_eval)





lemma select_all_example: "select_products example_world None = [mate, yerba]"
  by (simp add: select_products_def truthy_def example_world_def)

lemma bulk_increase_example:
  "bulk_increase tick_clock example_world
     (parse_bulk_increase \<lparr>body_percentage = Finite 10, body_category = None, body_reason = None\<rparr>) =
   (Inr [(''updated'', JInt 2), (''percentage'', JFloat (Finite 10)), (''category'', JNull)],
    example_world
      \<lparr>product_rows := [mate\<lparr>price := Finite 110, updated_at := 8\<rparr>,
                        yerba\<lparr>price := Finite 220, updated_at := 10\<rparr>],
       history_rows := history_rows example_world @
          [\<lparr>h_id = 3, product_id = 1, old_price = Finite 100, new_price = Finite 110,
            reason = Some ''Ajuste masivo'', h_created_at = 9\<rparr>,
           \<lparr>h_id = 4, product_id = 2, old_price = Finite 200, new_price = Finite 220,
            reason = Some ''Ajuste masivo'', h_created_at = 11\<rparr>],
       ticks := 12\<rparr>)"
  by (simp add: bulk_increase_run parse_bulk_increase_def select_all_example bulk_loop_Cons
      bulk_turn_def raise_100 raise_200 default_reason_def store_product_def next_rowid_def
      tick_clock_def)
     (simp add: example_world_def mate_def yerba_def raise_100 raise_200)

lemma snd_sum_case:
  "snd (case x of Inl e \<Rightarrow> (f e, w) | Inr v \<Rightarrow> (g v, w)) = w"
  by (cases x) simp_all

text \<open>The example store is the state after two creations and two updates of the price.\<close>

lemma example_world_reachable:
  "run tick_clock
     [Create \<lparr>c_name = ''mate'', c_category = ''bebidas'', c_cost = Finite 50, c_price = Finite 80\<rparr>,
      Create \<lparr>c_name = ''yerba'', c_category = ''almacen'', c_cost = Finite 80, c_price = Finite 200\<rparr>,
      Update 1 \<lparr>u_name = None, u_category = None, u_cost = None, u_price = Some (Some (Finite 90))\<rparr>,
      Update 1 \<lparr>u_name = None, u_category = None, u_cost = None, u_price = Some (Some (Finite 100))\<rparr>]
   = example_world"
  by (simp add: run_def serve_def create_product_def update_product_def session_get_def
        setattr_field_def utcnow_def Let_def snd_sum_case price_differs_def store_product_def
        empty_world_def tick_clock_def next_rowid_def example_world_def mate_def yerba_def)

lemma mono_tick_clock: "mono tick_clock"
  by (simp add: mono_def tick_clock_def)

section \<open>The claims\<close>












text \<open>
  C6, as amended. \<open>create_product\<close> reads the clock twice, first for \<open>created_at\<close> and then
  for \<open>updated_at\<close>. For a clock whose readings never decrease: a new product has
  \<open>created_at \<le> updated_at\<close>; every product of every state reached from the empty store
  by any sequence of requests has \<open>created_at \<le> updated_at\<close>; and no request lowers the
  \<open>updated_at\<close> of a product.
\<close>

theorem timestamps_ordered:
  assumes "mono clk"
  shows "(\<exists>view p. create_product clk w data = (Inr view, w\<lparr>ticks := Suc (Suc (ticks w)), product_rows := product_rows w @ [p]\<rparr>)
            \<and> created_at p = clk (ticks w) \<and> updated_at p = clk (Suc (ticks w))
            \<and> created_at p \<le> updated_at p)
    \<and> (\<forall>p\<in>set (product_rows (run clk reqs)). created_at p \<le> updated_at p)
    \<and> (\<forall>p\<in>set (product_rows (run clk reqs)).
         \<forall>p'\<in>set (product_rows (serve clk (run clk reqs) req)).
           p_id p' = p_id p \<longrightarrow> updated_at p \<le> updated_at p')"
proof -
  let ?p = "\<lparr>p_id = next_rowid (map p_id (product_rows w)), name = c_name data,
           category = c_category data, cost = c_cost data, price = c_price data,
           created_at = clk (ticks w), updated_at = clk (Suc (ticks w))\<rparr>"
  obtain view where "product_to_read ?p = Inr view"
    using product_to_read_total by blast
  then have "create_product clk w data =
      (Inr view, w\<lparr>ticks := Suc (Suc (ticks w)), product_rows := product_rows w @ [?p]\<rparr>)"
    by (simp add: create_product_def utcnow_def Let_def)
  moreover have "clk (ticks w) \<le> clk (Suc (ticks w))"
    using assms by (simp add: mono_def)
  ultimately have first: "\<exists>view p. create_product clk w data = (Inr view, w\<lparr>ticks := Suc (Suc (ticks w)), product_rows := product_rows w @ [p]\<rparr>)
            \<and> created_at p = clk (ticks w) \<and> updated_at p = clk (Suc (ticks w))
            \<and> created_at p \<le> updated_at p"
    by (intro exI [of _ view] exI [of _ ?p]) simp
  have ok: "stamps_ok clk (run clk reqs)"
    using assms by (rule stamps_ok_run)
  then have second: "\<forall>p\<in>set (product_rows (run clk reqs)). created_at p \<le> updated_at p"
    by (simp add: stamps_ok_def row_ok_def)
  have third: "updated_at p \<le> updated_at p'"
    if p: "p \<in> set (product_rows (run clk reqs))"
      and p': "p' \<in> set (product_rows (serve clk (run clk reqs) req))"
      and same: "p_id p' = p_id p" for p p'
  proof -
    from refreshed_serve [of clk "run clk reqs" req] p'
    consider "p' \<in> set (product_rows (run clk reqs))"
      | n where "ticks (run clk reqs) \<le> n" "updated_at p' = clk n"
      by (auto simp: refreshed_def)
    then show ?thesis
    proof cases
      case 1
      have "inj_on p_id (set (product_rows (run clk reqs)))"
        using ok by (simp add: stamps_ok_def distinct_map)
      with 1 p same have "p' = p" by (auto dest: inj_onD)
      then show ?thesis by simp
    next
      case 2
      then show ?thesis using ok p by (auto simp: stamps_ok_def row_ok_def)
    qed
  qed
  from first second third show ?thesis by blast
qed

theorem timestamps_ordered_witness:
  "mono tick_clock
   \<and> (\<exists>p p'.
         product_rows (run tick_clock
           [Create \<lparr>c_name = ''mate'', c_category = ''bebidas'', c_cost = Finite 50, c_price = Finite 80\<rparr>]) = [p]
       \<and> product_rows (serve tick_clock (run tick_clock
           [Create \<lparr>c_name = ''mate'', c_category = ''bebidas'', c_cost = Finite 50, c_price = Finite 80\<rparr>])
           (Update 1 \<lparr>u_name = None, u_category = None, u_cost = None, u_price = Some (Some (Finite 90))\<rparr>)) = [p']
       \<and> created_at p = 0 \<and> updated_at p = 1 \<and> created_at p \<le> updated_at p
       \<and> p_id p' = p_id p \<and> updated_at p' = 2 \<and> updated_at p \<le> updated_at p')"
proof -
  let ?reqs = "[Create \<lparr>c_name = ''mate'', c_category = ''bebidas'', c_cost = Finite 50, c_price = Finite 80\<rparr>]"
  let ?upd = "Update 1 \<lparr>u_name = None, u_category = None, u_cost = None, u_price = Some (Some (Finite 90))\<rparr>"
  let ?p = "\<lparr>p_id = 1, name = ''mate'', category = ''bebidas'', cost = Finite 50, price = Finite 80,
        created_at = 0, updated_at = 1\<rparr>"
  have w: "run tick_clock ?reqs = \<lparr>product_rows = [?p], history_rows = [], ticks = 2\<rparr>"
    by (simp add: run_def serve_def create_product_def utcnow_def Let_def snd_sum_case
        empty_world_def tick_clock_def next_rowid_def)
  have rows: "product_rows (run tick_clock ?reqs) = [?p]"
    by (simp add: w)
  have after: "product_rows (serve tick_clock (run tick_clock ?reqs) ?upd) =
      [?p\<lparr>price := Finite 90, updated_at := 2\<rparr>]"
    by (simp add: w serve_def update_product_def session_get_def setattr_field_def utcnow_def
        Let_def snd_sum_case price_differs_def store_product_def tick_clock_def)
  from timestamps_ordered [OF mono_tick_clock, of empty_world _ ?reqs ?upd]
  have "created_at ?p \<le> updated_at ?p"
    and "updated_at ?p \<le> updated_at (?p\<lparr>price := Finite 90, updated_at := 2\<rparr>)"
    unfolding rows after by simp_all
  then show ?thesis using mono_tick_clock by (simp add: rows after)
qed

text \<open>
  C6 as stated fails: with a clock that has advanced between the two readings the new
  product has \<open>created_at \<noteq> updated_at\<close>, and with a clock that is set back between them
  it has \<open>updated_at < created_at\<close>.
\<close>

theorem timestamps_ordered_counterexample:
  "(\<exists>p. product_rows (snd (create_product tick_clock empty_world
            \<lparr>c_name = ''mate'', c_category = ''bebidas'', c_cost = Finite 50, c_price = Finite 80\<rparr>)) = [p]
        \<and> created_at p = 0 \<and> updated_at p = 1 \<and> created_at p \<noteq> updated_at p)
   \<and> (\<exists>p. product_rows (snd (create_product (\<lambda>n. 5 - int n) empty_world
            \<lparr>c_name = ''mate'', c_category = ''bebidas'', c_cost = Finite 50, c_price = Finite 80\<rparr>)) = [p]
        \<and> created_at p = 5 \<and> updated_at p = 4 \<and> \<not> created_at p \<le> updated_at p)"
  by (simp add: create_product_world empty_world_def tick_clock_def)








text \<open>
  C10. A request whose category is the empty string selects every product of the table,
  and leaves the same world as the request without a category.
\<close>

theorem bulk_increase_empty_category:
  "select_products w (b_category (parse_bulk_increase (body\<lparr>body_category := Some (Some [])\<rparr>))) = product_rows w
   \<and> snd (bulk_increase clk w (parse_bulk_increase (body\<lparr>body_category := Some (Some [])\<rparr>)))
     = snd (bulk_increase clk w (parse_bulk_increase (body\<lparr>body_category := None\<rparr>)))"
  by (simp add: bulk_increase_def parse_bulk_increase_def select_products_empty_string
      select_products_None Let_def split_def)

theorem bulk_increase_empty_category_witness:
  "select_products example_world (b_category (parse_bulk_increase
       \<lparr>body_percentage = Finite 10, body_category = Some (Some []), body_reason = None\<rparr>)) = [mate, yerba]
   \<and> snd (bulk_increase tick_clock example_world (parse_bulk_increase
       \<lparr>body_percentage = Finite 10, body_category = Some (Some []), body_reason = None\<rparr>))
     = snd (bulk_increase tick_clock example_world (parse_bulk_increase
       \<lparr>body_percentage = Finite 10, body_category = None, body_reason = None\<rparr>))
   \<and> map price (product_rows (snd (bulk_increase tick_clock example_world (parse_bulk_increase
       \<lparr>body_percentage = Finite 10, body_category = Some (Some []), body_reason = None\<rparr>))))
     = [Finite 110, Finite 220]"
  using bulk_increase_empty_category [of example_world
      "\<lparr>body_percentage = Finite 10, body_category = None, body_reason = None\<rparr>" tick_clock]
  by (simp add: bulk_increase_example) (simp add: example_world_def)

end
